theory Spec2Isabelle
  imports Complex_Main "HOL-Library.Multiset"
begin

section \<open>Values the handlers work on\<close>

text \<open>
  The exceptions the code meets. \<open>str(e)\<close> of the source is \<open>message\<close>.
\<close>

datatype exn =
  ValueError string
  | TypeError string
  | KeyError string
  | AttributeError string
  | UnicodeEncodeError string
  | DuplicateKeyError string

fun message :: "exn \<Rightarrow> string" where
  "message (ValueError s) = s"
| "message (TypeError s) = s"
| "message (KeyError s) = s"
| "message (AttributeError s) = s"
| "message (UnicodeEncodeError s) = s"
| "message (DuplicateKeyError s) = s"

text \<open>
  A cell of a pandas data frame. The source touches a cell only through four
  library calls, so a cell is modelled by what each of them answers on it:
  \<open>pd.isna(v)\<close>, \<open>str(v)\<close>, \<open>float(v)\<close> and
  \<open>pd.to_datetime(v).date().isoformat()\<close>; the last two may raise. No relation
  between the four is assumed.
\<close>

record cell =
  isna :: bool
  str_of :: string
  float_of :: "exn + real"
  iso_date :: "exn + string"

text \<open>
  A string is the UTF-8 byte sequence of a Python \<open>str\<close>; a lone surrogate, which
  a \<open>str\<close> may hold, stands in the same three-byte form (ED A0..BF xx).

  \<open>str.strip()\<close> removes the white space of Python at both ends: the code points
  09 to 0D, 1C to 20, 85, A0, 1680, 2000 to 200A, 2028, 2029, 202F, 205F and 3000, here
  in their one, two and three byte forms. \<open>rstrip_rev\<close> works on the reversed string.
\<close>

definition isspace :: "char \<Rightarrow> bool" where
  "isspace c = (let n = (of_char c :: nat) in (9 \<le> n \<and> n \<le> 13) \<or> (28 \<le> n \<and> n \<le> 32))"

definition isspace2 :: "char \<Rightarrow> char \<Rightarrow> bool" where
  "isspace2 a b = (let m = (of_char a :: nat); n = (of_char b :: nat) in
     m = 194 \<and> (n = 133 \<or> n = 160))"

definition isspace3 :: "char \<Rightarrow> char \<Rightarrow> char \<Rightarrow> bool" where
  "isspace3 a b c = (let l = (of_char a :: nat); m = (of_char b :: nat); n = (of_char c :: nat) in
     (l = 225 \<and> m = 154 \<and> n = 128)
     \<or> (l = 226 \<and> m = 128 \<and> ((128 \<le> n \<and> n \<le> 138) \<or> n = 168 \<or> n = 169 \<or> n = 175))
     \<or> (l = 226 \<and> m = 129 \<and> n = 159)
     \<or> (l = 227 \<and> m = 128 \<and> n = 128))"

fun lstrip :: "string \<Rightarrow> string" where
  "lstrip (a # b # c # rest) =
     (if isspace a then lstrip (b # c # rest)
      else if isspace2 a b then lstrip (c # rest)
      else if isspace3 a b c then lstrip rest
      else a # b # c # rest)"
| "lstrip [a, b] = (if isspace a then lstrip [b] else if isspace2 a b then [] else [a, b])"
| "lstrip [a] = (if isspace a then [] else [a])"
| "lstrip [] = []"

fun rstrip_rev :: "string \<Rightarrow> string" where
  "rstrip_rev (c # b # a # rest) =
     (if isspace c then rstrip_rev (b # a # rest)
      else if isspace2 b c then rstrip_rev (a # rest)
      else if isspace3 a b c then rstrip_rev rest
      else c # b # a # rest)"
| "rstrip_rev [b, a] = (if isspace b then rstrip_rev [a] else if isspace2 a b then [] else [b, a])"
| "rstrip_rev [a] = (if isspace a then [] else [a])"
| "rstrip_rev [] = []"

definition strip :: "string \<Rightarrow> string" where
  "strip s = rev (rstrip_rev (rev (lstrip s)))"

text \<open>
  \<open>str.lower()\<close> on the ASCII capitals; other bytes stay.
\<close>

definition lower_char :: "char \<Rightarrow> char" where
  "lower_char c = (let n = (of_char c :: nat) in if 65 \<le> n \<and> n \<le> 90 then char_of (n + 32) else c)"

definition lower :: "string \<Rightarrow> string" where
  "lower s = map lower_char s"

text \<open>
  \<open>str.encode()\<close>: the bytes as they are, and \<open>UnicodeEncodeError\<close> when the text
  holds a surrogate.
\<close>

fun has_surrogate :: "string \<Rightarrow> bool" where
  "has_surrogate (a # b # rest) =
     (((of_char a :: nat) = 237 \<and> 160 \<le> (of_char b :: nat)) \<or> has_surrogate (b # rest))"
| "has_surrogate [a] = False"
| "has_surrogate [] = False"

definition encode :: "string \<Rightarrow> exn + string" where
  "encode s = (if has_surrogate s then Inl (UnicodeEncodeError ''surrogates not allowed'') else Inr s)"

text \<open>Truthiness of an optional string: \<open>None\<close> and the empty string are falsy.\<close>

fun truthy :: "string option \<Rightarrow> bool" where
  "truthy None = False"
| "truthy (Some s) = (s \<noteq> [])"

text \<open>
  A data frame: the column labels as read from the file, and the rows in order. A row
  gives a cell for every label; only the labels of \<open>columns\<close> are ever read.
\<close>

record dataframe =
  columns :: "string list"
  rows :: "(string \<Rightarrow> cell) list"

section \<open>The store\<close>

text \<open>
  The three collections, each a list of documents in insertion order. In a student
  document \<open>None\<close> stands for a field that is null or missing: the code reads these
  fields only through \<open>.get\<close> and truthiness, which do not tell the two apart.
  \<open>marks_unique_index\<close> says whether the unique index on
  \<open>(register_number, subject_code)\<close> of app.py exists on the marks collection.
  Timestamps are natural numbers. The upload directory is outside the store.
\<close>

record student =
  register_number :: string
  student_name :: "string option"
  dob_hash :: "string option"
  created_at :: nat

record mark =
  m_register_number :: string
  subject_code :: string
  subject_name :: "string option"
  marks :: real
  exam_date :: "string option"
  uploaded_by :: string
  uploaded_at :: nat
  source_file :: "string option"

record upload =
  filename :: string
  u_uploaded_by :: string
  u_uploaded_at :: nat

record db =
  students_col :: "student list"
  marks_col :: "mark list"
  uploads_col :: "upload list"
  marks_unique_index :: bool

text \<open>
  What the handlers take from outside the repository: bcrypt on encoded text (both
  calls may raise), the salt \<open>gensalt()\<close> draws and the clock \<open>utcnow()\<close> reads
  while row \<open>i\<close> of a batch is processed, werkzeug's \<open>secure_filename\<close>, and the
  text \<open>str()\<close> gives for a pandas Series of several cells.
\<close>

record env =
  hashpw :: "string \<Rightarrow> string \<Rightarrow> exn + string"
  checkpw :: "string \<Rightarrow> string \<Rightarrow> exn + bool"
  gensalt :: "nat \<Rightarrow> string"
  utcnow :: "nat \<Rightarrow> nat"
  secure_filename :: "string \<Rightarrow> string"
  series_str :: "cell list \<Rightarrow> string"

text \<open>\<open>find_one\<close>, \<open>delete_one\<close> and \<open>delete_many\<close> of a collection.\<close>

fun find_one :: "('a \<Rightarrow> bool) \<Rightarrow> 'a list \<Rightarrow> 'a option" where
  "find_one p [] = None"
| "find_one p (d # ds) = (if p d then Some d else find_one p ds)"

fun delete_one :: "('a \<Rightarrow> bool) \<Rightarrow> 'a list \<Rightarrow> 'a list" where
  "delete_one p [] = []"
| "delete_one p (d # ds) = (if p d then ds else d # delete_one p ds)"

fun delete_many :: "('a \<Rightarrow> bool) \<Rightarrow> 'a list \<Rightarrow> 'a list" where
  "delete_many p [] = []"
| "delete_many p (d # ds) = (if p d then delete_many p ds else d # delete_many p ds)"

text \<open>\<open>update_one(filter, {"$set": ...})\<close>: the first matching document is changed.\<close>

fun update_one :: "('a \<Rightarrow> bool) \<Rightarrow> ('a \<Rightarrow> 'a) \<Rightarrow> 'a list \<Rightarrow> 'a list" where
  "update_one p f [] = []"
| "update_one p f (d # ds) = (if p d then f d # ds else d # update_one p f ds)"

section \<open>Hashing helpers\<close>

text \<open>
  \<open>hash_text\<close> of app.py and models.py, called while row \<open>i\<close> is processed:
  \<open>bcrypt.hashpw(text.encode(), bcrypt.gensalt()).decode()\<close>.
\<close>

definition hash_text :: "env \<Rightarrow> nat \<Rightarrow> string \<Rightarrow> exn + string" where
  "hash_text e i text =
     (case encode text of
        Inl x \<Rightarrow> Inl x
      | Inr bytes \<Rightarrow> hashpw e bytes (gensalt e i))"

text \<open>\<open>bcrypt.checkpw(text.encode(), hashed.encode())\<close>, the arguments in their order.\<close>

definition check_encoded :: "env \<Rightarrow> string \<Rightarrow> string \<Rightarrow> exn + bool" where
  "check_encoded e text hashed =
     (case encode text of
        Inl x \<Rightarrow> Inl x
      | Inr bytes \<Rightarrow>
          (case encode hashed of
             Inl x \<Rightarrow> Inl x
           | Inr hashed_bytes \<Rightarrow> checkpw e bytes hashed_bytes))"

text \<open>
  \<open>hash_text(dob) if dob else None\<close>: the hash a new student document gets. In
  app.py it is the \<open>if dob:\<close> that fills \<open>$setOnInsert\<close>.
\<close>

definition hash_if_given :: "env \<Rightarrow> nat \<Rightarrow> string option \<Rightarrow> exn + string option" where
  "hash_if_given e i dob =
     (case dob of
        None \<Rightarrow> Inr None
      | Some t \<Rightarrow> if t = [] then Inr None else map_sum id Some (hash_text e i t))"

text \<open>app.py: \<open>bool(hashed) and bcrypt.checkpw(...)\<close>.\<close>

definition verify_hash :: "env \<Rightarrow> string \<Rightarrow> string option \<Rightarrow> exn + bool" where
  "verify_hash e text hashed =
     (case hashed of None \<Rightarrow> Inr False
      | Some h \<Rightarrow> if h = [] then Inr False else check_encoded e text h)"

text \<open>models.py: \<open>if not hashed: return False\<close>, then \<open>bcrypt.checkpw(...)\<close>.\<close>

definition models_verify_hash :: "env \<Rightarrow> string \<Rightarrow> string option \<Rightarrow> exn + bool" where
  "models_verify_hash e text hashed =
     (case hashed of None \<Rightarrow> Inr False
      | Some h \<Rightarrow> if h = [] then Inr False else check_encoded e text h)"

section \<open>Responses\<close>

text \<open>
  What a handler answers: \<open>jsonify({"error": msg}), status\<close>; the three success
  bodies; or an exception that leaves the handler (the framework answers 500).
\<close>

datatype response =
  Json_error nat string
  | Processed nat
  | Deleted
  | Lookup_ok string "string option" "mark list"
  | Unhandled exn

section \<open>Student lookup (app.py, lookup)\<close>

text \<open>
  The two arguments are \<open>str(data.get("register_number", ""))\<close> and
  \<open>str(data.get("dob", ""))\<close> of the request.
\<close>

definition lookup :: "env \<Rightarrow> db \<Rightarrow> string \<Rightarrow> string \<Rightarrow> response" where
  "lookup e d register_number_in dob_in =
     (let reg = strip register_number_in; dob = strip dob_in in
      if reg = [] \<or> dob = [] then Json_error 400 ''register_number and dob required''
      else case find_one (\<lambda>s. register_number s = reg) (students_col d) of
        None \<Rightarrow> Json_error 401 ''Invalid details''
      | Some student \<Rightarrow>
          (case verify_hash e dob (dob_hash student) of
             Inl x \<Rightarrow> Unhandled x
           | Inr ok \<Rightarrow>
               if \<not> ok then Json_error 401 ''Invalid details''
               else Lookup_ok reg (student_name student)
                      (filter (\<lambda>m. m_register_number m = reg) (marks_col d))))"

section \<open>Admin delete (app.py, delete\_upload)\<close>

text \<open>The argument is \<open>data.get("filename", "")\<close> of the request.\<close>

definition delete_upload :: "env \<Rightarrow> db \<Rightarrow> string \<Rightarrow> response \<times> db" where
  "delete_upload e d filename_in =
     (let name = secure_filename e filename_in in
      if name = [] then (Json_error 400 ''filename required'', d)
      else (Deleted,
            d\<lparr>uploads_col := delete_one (\<lambda>u. filename u = name) (uploads_col d),
              marks_col := delete_many (\<lambda>m. source_file m = Some name) (marks_col d)\<rparr>))"

section \<open>Upload intake (app.py, upload\_marks)\<close>

text \<open>
  \<open>df.columns = [c.lower().strip() for c in df.columns]\<close>, and \<open>row.get(k)\<close> on a
  row of the renamed frame: the cells under the labels that were renamed to \<open>k\<close>.
  No cell is Python's \<open>None\<close> (\<open>k in row\<close> is False), one cell is that cell, and
  several cells are a Series, which pandas hands back when labels collide.
\<close>

definition renamed :: "string list \<Rightarrow> string list" where
  "renamed cols = map (\<lambda>c. strip (lower c)) cols"

definition row_get :: "string list \<Rightarrow> (string \<Rightarrow> cell) \<Rightarrow> string \<Rightarrow> cell list" where
  "row_get cols row k = map row (filter (\<lambda>c. strip (lower c) = k) cols)"

definition required :: "string list" where
  "required = [''register_number'', ''subject_code'', ''marks'']"

text \<open>
  What the body does with a value \<open>row.get\<close> returned: \<open>str(v)\<close>; \<open>pd.isna(v)\<close>
  used as a condition, which raises on a Series; \<open>float(v)\<close>; and
  \<open>pd.to_datetime(v).date().isoformat()\<close>.
\<close>

fun py_str :: "env \<Rightarrow> cell list \<Rightarrow> string" where
  "py_str e [] = ''None''"
| "py_str e [c] = str_of c"
| "py_str e cs = series_str e cs"

fun pd_isna :: "cell list \<Rightarrow> exn + bool" where
  "pd_isna [] = Inr True"
| "pd_isna [c] = Inr (isna c)"
| "pd_isna cs = Inl (ValueError ''The truth value of a Series is ambiguous'')"

fun py_float :: "cell list \<Rightarrow> exn + real" where
  "py_float [] = Inl (TypeError ''float() argument must be a string or a real number'')"
| "py_float [c] = float_of c"
| "py_float cs = Inl (TypeError ''cannot convert the series to float'')"

fun py_iso_date :: "cell list \<Rightarrow> exn + string" where
  "py_iso_date [] = Inl (AttributeError ''NoneType object has no attribute date'')"
| "py_iso_date [c] = iso_date c"
| "py_iso_date cs = Inl (AttributeError ''Series object has no attribute date'')"

text \<open>
  \<open>students_col.update_one({"register_number": reg}, update, upsert=True)\<close> with
  \<open>$set: student_name\<close> and \<open>$setOnInsert: dob_hash (when given), register_number,
  created_at\<close>.
\<close>

definition upsert_student_doc ::
  "string \<Rightarrow> string option \<Rightarrow> string option \<Rightarrow> nat \<Rightarrow> student list \<Rightarrow> student list" where
  "upsert_student_doc reg name set_on_insert_hash t ss =
     (case find_one (\<lambda>s. register_number s = reg) ss of
        Some _ \<Rightarrow> update_one (\<lambda>s. register_number s = reg) (\<lambda>s. s\<lparr>student_name := name\<rparr>) ss
      | None \<Rightarrow> ss @ [\<lparr>register_number = reg, student_name = name,
                        dob_hash = set_on_insert_hash, created_at = t\<rparr>])"

text \<open>
  \<open>marks_col.update_one({"register_number": reg, "subject_code": subject},
  {"$set": {...}}, upsert=True)\<close>. With one client the upsert never conflicts.
\<close>

definition same_pair :: "string \<Rightarrow> string \<Rightarrow> mark \<Rightarrow> bool" where
  "same_pair reg subject m = (m_register_number m = reg \<and> subject_code m = subject)"

definition upsert_mark ::
  "string \<Rightarrow> string \<Rightarrow> real \<Rightarrow> string \<Rightarrow> nat \<Rightarrow> string \<Rightarrow> mark list \<Rightarrow> mark list" where
  "upsert_mark reg subject v user t fname ms =
     (case find_one (same_pair reg subject) ms of
        Some _ \<Rightarrow> update_one (same_pair reg subject)
                    (\<lambda>m. m\<lparr>marks := v, uploaded_by := user, uploaded_at := t,
                           source_file := Some fname\<rparr>) ms
      | None \<Rightarrow> ms @ [\<lparr>m_register_number = reg, subject_code = subject, subject_name = None,
                        marks = v, exam_date = None, uploaded_by = user, uploaded_at = t,
                        source_file = Some fname\<rparr>])"

text \<open>
  One pass of the loop body on row \<open>i\<close>. \<open>Skipped\<close> is the first \<open>continue\<close>,
  \<open>Conflict\<close> the \<open>except DuplicateKeyError: continue\<close>, \<open>Uncaught\<close> an exception
  that no handler of the loop catches.
\<close>

datatype upload_outcome = Skipped | Upserted | Conflict | Uncaught exn

text \<open>
  The values the body computes from the row: \<open>str(row.get(k, "")).strip()\<close> for
  \<open>reg\<close> and \<open>subject\<close>, then \<open>student_name\<close> and \<open>dob\<close> (whose parse is not
  guarded and may raise).
\<close>

definition get_str :: "env \<Rightarrow> string list \<Rightarrow> (string \<Rightarrow> cell) \<Rightarrow> string \<Rightarrow> string" where
  "get_str e cols row k =
     strip (if row_get cols row k = [] then [] else py_str e (row_get cols row k))"

definition student_name_of :: "env \<Rightarrow> string list \<Rightarrow> (string \<Rightarrow> cell) \<Rightarrow> exn + string option" where
  "student_name_of e cols row =
     (if row_get cols row ''student_name'' = [] then Inr None
      else case pd_isna (row_get cols row ''student_name'') of
        Inl x \<Rightarrow> Inl x
      | Inr na \<Rightarrow>
          if na then Inr None
          else Inr (Some (strip (py_str e (row_get cols row ''student_name'')))))"

definition dob_of :: "string list \<Rightarrow> (string \<Rightarrow> cell) \<Rightarrow> exn + string option" where
  "dob_of cols row =
     (if row_get cols row ''dob'' = [] then Inr None
      else case pd_isna (row_get cols row ''dob'') of
        Inl x \<Rightarrow> Inl x
      | Inr na \<Rightarrow>
          if na then Inr None
          else map_sum id Some (py_iso_date (row_get cols row ''dob'')))"

definition upload_row ::
  "env \<Rightarrow> string \<Rightarrow> string \<Rightarrow> string list \<Rightarrow> nat \<Rightarrow> db \<Rightarrow> (string \<Rightarrow> cell) \<Rightarrow> upload_outcome \<times> db" where
  "upload_row e user fname cols i d row =
     (let reg = get_str e cols row ''register_number'';
          subject = get_str e cols row ''subject_code'';
          marks_val = row_get cols row ''marks''
      in
      if reg = [] \<or> subject = [] then (Skipped, d)
      else
        case pd_isna marks_val of
          Inl x \<Rightarrow> (Uncaught x, d)
        | Inr na \<Rightarrow>
           if na then (Skipped, d)
           else
           (case student_name_of e cols row of
              Inl x \<Rightarrow> (Uncaught x, d)
            | Inr name \<Rightarrow>
           (case dob_of cols row of
              Inl x \<Rightarrow> (Uncaught x, d)
            | Inr dob \<Rightarrow>
           (case hash_if_given e i dob of
              Inl x \<Rightarrow> (Uncaught x, d)
            | Inr h \<Rightarrow>
               let d1 = d\<lparr>students_col :=
                          upsert_student_doc reg name h (utcnow e i) (students_col d)\<rparr>
               in
               (case py_float marks_val of
                  Inl (DuplicateKeyError s) \<Rightarrow> (Conflict, d1)
                | Inl x \<Rightarrow> (Uncaught x, d1)
                | Inr v \<Rightarrow>
                    (Upserted,
                     d1\<lparr>marks_col := upsert_mark reg subject v user (utcnow e i) fname (marks_col d1)\<rparr>))))))"

text \<open>
  The loop \<open>for _, row in df.iterrows()\<close>: the exception that ended it (if any), the
  store, and \<open>inserted\<close>.
\<close>

fun upload_rows ::
  "env \<Rightarrow> string \<Rightarrow> string \<Rightarrow> string list \<Rightarrow> nat \<Rightarrow> nat \<Rightarrow> db \<Rightarrow> (string \<Rightarrow> cell) list
     \<Rightarrow> exn option \<times> db \<times> nat" where
  "upload_rows e user fname cols i inserted d [] = (None, d, inserted)"
| "upload_rows e user fname cols i inserted d (row # rest) =
     (case upload_row e user fname cols i d row of
        (Uncaught x, d') \<Rightarrow> (Some x, d', inserted)
      | (Upserted, d') \<Rightarrow> upload_rows e user fname cols (Suc i) (Suc inserted) d' rest
      | (Skipped, d') \<Rightarrow> upload_rows e user fname cols (Suc i) inserted d' rest
      | (Conflict, d') \<Rightarrow> upload_rows e user fname cols (Suc i) inserted d' rest)"

text \<open>
  The handler from the read of the saved file on. \<open>user\<close> is
  \<open>request.user["email"]\<close>, \<open>fname\<close> the secured file name, \<open>read\<close> what
  \<open>pd.read_csv\<close> or \<open>pd.read_excel\<close> gave (\<open>None\<close>: it raised).
\<close>

definition upload_marks :: "env \<Rightarrow> db \<Rightarrow> string \<Rightarrow> string \<Rightarrow> dataframe option \<Rightarrow> response \<times> db" where
  "upload_marks e d user fname read =
     (case read of
        None \<Rightarrow> (Json_error 400 ''Invalid spreadsheet'', d)
      | Some df \<Rightarrow>
          if \<not> set required \<subseteq> set (renamed (columns df))
          then (Json_error 400 ''Missing required columns'', d)
          else
            (case upload_rows e user fname (columns df) 0 0 d (rows df) of
               (Some x, d', inserted) \<Rightarrow> (Unhandled x, d')
             | (None, d', inserted) \<Rightarrow>
                 (Processed inserted,
                  d'\<lparr>uploads_col := uploads_col d' @
                       [\<lparr>filename = fname, u_uploaded_by = user,
                         u_uploaded_at = utcnow e (length (rows df))\<rparr>]\<rparr>)))"

section \<open>The student helper (models.py, upsert\_student)\<close>

text \<open>
  The returned \<open>_id\<close> is not modelled: the result is the collection after the call,
  or the exception of \<open>hash_text\<close>. \<open>i\<close> numbers the call for the salt and the clock.
\<close>

definition upsert_student :: "env \<Rightarrow> nat \<Rightarrow> student list \<Rightarrow> string \<Rightarrow> string option \<Rightarrow> exn + student list" where
  "upsert_student e i ss reg dob =
     (case find_one (\<lambda>s. register_number s = reg) ss of
        Some existing \<Rightarrow>
          (case dob of
             None \<Rightarrow> Inr ss
           | Some t \<Rightarrow>
               if t = [] then Inr ss
               else (case hash_text e i t of
                       Inl x \<Rightarrow> Inl x
                     | Inr h \<Rightarrow> Inr (update_one (\<lambda>s. register_number s = reg)
                                         (\<lambda>s. s\<lparr>dob_hash := Some h\<rparr>) ss)))
      | None \<Rightarrow>
          (case hash_if_given e i dob of
             Inl x \<Rightarrow> Inl x
           | Inr h \<Rightarrow> Inr (ss @ [\<lparr>register_number = reg, student_name = None, dob_hash = h,
                                   created_at = utcnow e i\<rparr>])))"

section \<open>Offline import (migrate\_to\_mongo.py)\<close>

text \<open>
  \<open>create_indexes\<close> gives the marks collection a plain index on
  \<open>register_number\<close>: the store is as before. The start of app.py builds the unique
  index on \<open>(register_number, subject_code)\<close>, which fails on a collection that holds
  a pair twice.
\<close>

definition pair_of :: "mark \<Rightarrow> string \<times> string" where
  "pair_of m = (m_register_number m, subject_code m)"

definition create_indexes :: "db \<Rightarrow> db" where
  "create_indexes d = d"

definition app_create_index :: "db \<Rightarrow> exn + db" where
  "app_create_index d =
     (if distinct (map pair_of (marks_col d)) then Inr (d\<lparr>marks_unique_index := True\<rparr>)
      else Inl (DuplicateKeyError ''E11000 duplicate key error''))"

text \<open>\<open>for c in cols: mapping[c.lower().strip()] = c\<close>.\<close>

definition normalize_columns :: "string list \<Rightarrow> (string \<rightharpoonup> string)" where
  "normalize_columns cols = fold (\<lambda>c mapping. mapping(strip (lower c) \<mapsto> c)) cols Map.empty"

text \<open>The optional fields of a row: text (student\_name, subject\_name) and dates (dob, exam\_date).\<close>

definition optional_text :: "(string \<rightharpoonup> string) \<Rightarrow> (string \<Rightarrow> cell) \<Rightarrow> string \<Rightarrow> string option" where
  "optional_text colmap row k =
     (case colmap k of
        None \<Rightarrow> None
      | Some c \<Rightarrow> if isna (row c) then None else Some (strip (str_of (row c))))"

definition optional_date :: "(string \<rightharpoonup> string) \<Rightarrow> (string \<Rightarrow> cell) \<Rightarrow> string \<Rightarrow> string option" where
  "optional_date colmap row k =
     (case colmap k of
        None \<Rightarrow> None
      | Some c \<Rightarrow>
          if isna (row c) then None
          else (case iso_date (row c) of
                  Inr parsed \<Rightarrow> Some parsed
                | Inl _ \<Rightarrow> Some (strip (str_of (row c)))))"

text \<open>The student part of the loop body: insert when absent, else fill a missing hash.\<close>

definition import_student ::
  "env \<Rightarrow> nat \<Rightarrow> string \<Rightarrow> string option \<Rightarrow> string option \<Rightarrow> student list \<Rightarrow> exn + student list" where
  "import_student e i reg dob name ss =
     (case find_one (\<lambda>s. register_number s = reg) ss of
        None \<Rightarrow>
          (case hash_if_given e i dob of
             Inl x \<Rightarrow> Inl x
           | Inr h \<Rightarrow> Inr (ss @ [\<lparr>register_number = reg, student_name = name, dob_hash = h,
                                   created_at = utcnow e i\<rparr>]))
      | Some existing \<Rightarrow>
          if truthy dob \<and> \<not> truthy (dob_hash existing)
          then (case hash_text e i (case dob of Some t \<Rightarrow> t | None \<Rightarrow> []) of
                  Inl x \<Rightarrow> Inl x
                | Inr h \<Rightarrow> Inr (update_one (\<lambda>s. register_number s = reg)
                                    (\<lambda>s. s\<lparr>dob_hash := Some h, student_name := name\<rparr>) ss))
          else Inr ss)"

text \<open>
  \<open>marks_col.insert_one\<close>: a new document, refused when the unique index exists and
  the pair is already stored.
\<close>

definition insert_one_mark :: "bool \<Rightarrow> mark \<Rightarrow> mark list \<Rightarrow> exn + mark list" where
  "insert_one_mark unique m ms =
     (if unique \<and> pair_of m \<in> set (map pair_of ms)
      then Inl (DuplicateKeyError ''E11000 duplicate key error'')
      else Inr (ms @ [m]))"

text \<open>
  The body of the \<open>try\<close> on row \<open>i\<close>: \<open>Missing_required\<close> is the \<open>continue\<close> of
  the blank check, \<open>Failed\<close> an exception, which the \<open>except Exception\<close> of the loop
  receives. What was written before the exception stays written. In the blank check
  \<open>reg\<close> and \<open>subject\<close> are strings already, on which \<open>pd.isna\<close> is False, so
  the check is \<open>reg == ""\<close> or \<open>pd.isna(marks_val)\<close>.
\<close>

datatype import_outcome = Missing_required | Inserted | Failed exn

definition import_row ::
  "env \<Rightarrow> (string \<rightharpoonup> string) \<Rightarrow> nat \<Rightarrow> db \<Rightarrow> (string \<Rightarrow> cell) \<Rightarrow> import_outcome \<times> db" where
  "import_row e colmap i d row =
     (case colmap ''register_number'' of
        None \<Rightarrow> (Failed (KeyError ''register_number''), d)
      | Some c_reg \<Rightarrow>
     (case colmap ''subject_code'' of
        None \<Rightarrow> (Failed (KeyError ''subject_code''), d)
      | Some c_subject \<Rightarrow>
     (case colmap ''marks'' of
        None \<Rightarrow> (Failed (KeyError ''marks''), d)
      | Some c_marks \<Rightarrow>
         let reg = strip (str_of (row c_reg));
             subject = strip (str_of (row c_subject));
             marks_val = row c_marks
         in
         if reg = [] \<or> isna marks_val then (Missing_required, d)
         else
           let dob = optional_date colmap row ''dob'';
               name = optional_text colmap row ''student_name'';
               subject_name_v = optional_text colmap row ''subject_name'';
               exam_date_v = optional_date colmap row ''exam_date''
           in
           (case import_student e i reg dob name (students_col d) of
              Inl x \<Rightarrow> (Failed x, d)
            | Inr ss \<Rightarrow>
                let d1 = d\<lparr>students_col := ss\<rparr> in
                (case float_of marks_val of
                   Inl x \<Rightarrow> (Failed x, d1)
                 | Inr v \<Rightarrow>
                     (case insert_one_mark (marks_unique_index d1)
                             \<lparr>m_register_number = reg, subject_code = subject,
                              subject_name = subject_name_v, marks = v, exam_date = exam_date_v,
                              uploaded_by = ''migration-script'', uploaded_at = utcnow e i,
                              source_file = None\<rparr> (marks_col d1) of
                        Inl x \<Rightarrow> (Failed x, d1)
                      | Inr ms \<Rightarrow> (Inserted, d1\<lparr>marks_col := ms\<rparr>)))))))"

text \<open>
  An entry of \<open>errors\<close>: \<open>{"row": n, "error": reason}\<close>, or the bare text of the
  empty-file return.
\<close>

datatype err_entry = Row_error nat string | Text_error string

text \<open>The loop \<open>for idx, row in df.iterrows()\<close>, from position \<open>idx\<close> on.\<close>

fun import_rows ::
  "env \<Rightarrow> (string \<rightharpoonup> string) \<Rightarrow> nat \<Rightarrow> db \<times> nat \<times> err_entry list \<Rightarrow> (string \<Rightarrow> cell) list
     \<Rightarrow> db \<times> nat \<times> err_entry list" where
  "import_rows e colmap idx st [] = st"
| "import_rows e colmap idx (d, inserted, errors) (row # rest) =
     (case import_row e colmap idx d row of
        (Missing_required, d') \<Rightarrow>
          import_rows e colmap (Suc idx)
            (d', inserted, errors @ [Row_error (idx + 2) ''missing required'']) rest
      | (Inserted, d') \<Rightarrow> import_rows e colmap (Suc idx) (d', Suc inserted, errors) rest
      | (Failed x, d') \<Rightarrow>
          import_rows e colmap (Suc idx)
            (d', inserted, errors @ [Row_error (idx + 2) (message x)]) rest)"

text \<open>
  What locating and reading the file gave (lines 101 to 116): \<open>Sheets\<close> is the dict
  of frames that \<open>pd.read_excel\<close> returns for \<open>sheet_name=None\<close>, the default of
  the function and of the command line. What \<open>import_marks_file\<close> returns:
  \<open>{"error": kind, ...}\<close> with its detail, or \<open>{"inserted": n, "errors": errors}\<close>;
  \<open>Import_raised\<close> is an exception that leaves the function.
\<close>

datatype read_result =
  File_not_found
  | Unsupported_extension
  | Read_error string
  | Frame dataframe
  | Sheets

datatype import_result =
  Import_error string "string option"
  | Imported nat "err_entry list"
  | Import_raised exn

definition import_marks_file :: "env \<Rightarrow> db \<Rightarrow> read_result \<Rightarrow> import_result \<times> db" where
  "import_marks_file e d read =
     (case read of
        File_not_found \<Rightarrow> (Import_error ''file-not-found'' None, d)
      | Unsupported_extension \<Rightarrow> (Import_error ''unsupported-extension'' None, d)
      | Read_error detail \<Rightarrow> (Import_error ''read-error'' (Some detail), d)
      | Sheets \<Rightarrow> (Import_raised (AttributeError ''dict object has no attribute empty''), d)
      | Frame df \<Rightarrow>
          if rows df = [] \<or> columns df = [] then (Imported 0 [Text_error ''empty file''], d)
          else
            let colmap = normalize_columns (columns df) in
            (case find_one (\<lambda>r. colmap r = None) required of
               Some r \<Rightarrow> (Import_error ''missing-column'' (Some r), d)
             | None \<Rightarrow>
                 (case import_rows e colmap 0 (d, 0, []) (rows df) of
                    (d', inserted, errors) \<Rightarrow> (Imported inserted errors, d'))))"

section \<open>Concrete inputs\<close>

text \<open>
  An environment for the examples: a stand-in for bcrypt that keeps salt and text
  readable, a clock that starts at 1000, and a \<open>secure_filename\<close> that leaves safe
  names as they are.
\<close>

definition env0 :: env where
  "env0 = \<lparr>hashpw = (\<lambda>text salt. Inr (salt @ ''$'' @ text)),
           checkpw = (\<lambda>text h. Inr (tl (dropWhile (\<lambda>c. c \<noteq> CHR ''$'') h) = text)),
           gensalt = (\<lambda>i. replicate (Suc i) CHR ''s''),
           utcnow = (\<lambda>i. 1000 + i),
           secure_filename = (\<lambda>name. name),
           series_str = (\<lambda>cs. concat (map (\<lambda>c. str_of c @ [CHR 0x0A]) cs) @ ''dtype: object'')\<rparr>"

text \<open>
  Cells as pandas hands them over: text that is neither a number nor a date, a number,
  an ISO date, and the missing value.
\<close>

definition text_cell :: "string \<Rightarrow> cell" where
  "text_cell s = \<lparr>isna = False, str_of = s,
                  float_of = Inl (ValueError ''could not convert string to float''),
                  iso_date = Inl (ValueError ''Unknown datetime string format'')\<rparr>"

definition num_cell :: "string \<Rightarrow> real \<Rightarrow> cell" where
  "num_cell s v = \<lparr>isna = False, str_of = s, float_of = Inr v, iso_date = Inr ''1970-01-01''\<rparr>"

definition date_cell :: "string \<Rightarrow> cell" where
  "date_cell s = \<lparr>isna = False, str_of = s,
                  float_of = Inl (ValueError ''could not convert string to float''),
                  iso_date = Inr s\<rparr>"

definition nan_cell :: cell where
  "nan_cell = \<lparr>isna = True, str_of = ''nan'', float_of = Inr 0,
               iso_date = Inl (ValueError ''NaTType does not support date'')\<rparr>"

definition mk_row :: "(string \<times> cell) list \<Rightarrow> string \<Rightarrow> cell" where
  "mk_row kvs c = (case map_of kvs c of Some v \<Rightarrow> v | None \<Rightarrow> nan_cell)"

definition db_empty :: db where
  "db_empty = \<lparr>students_col = [], marks_col = [], uploads_col = [], marks_unique_index = False\<rparr>"

text \<open>
  Stores: one student with two marks from two uploaded files, and one student created
  from rows that carried no dob.
\<close>

definition db_two_files :: db where
  "db_two_files = \<lparr>students_col = [\<lparr>register_number = ''REG1'', student_name = Some ''Alice'',
                                    dob_hash = Some ''s$2005-01-01'', created_at = 1000\<rparr>],
     marks_col = [\<lparr>m_register_number = ''REG1'', subject_code = ''MATH101'', subject_name = None,
                   marks = 88, exam_date = None, uploaded_by = ''staff@example.com'',
                   uploaded_at = 1000, source_file = Some ''a.csv''\<rparr>,
                  \<lparr>m_register_number = ''REG1'', subject_code = ''PHYS101'', subject_name = None,
                   marks = 91, exam_date = None, uploaded_by = ''staff@example.com'',
                   uploaded_at = 2000, source_file = Some ''b.csv''\<rparr>],
     uploads_col = [\<lparr>filename = ''a.csv'', u_uploaded_by = ''staff@example.com'', u_uploaded_at = 1001\<rparr>,
                    \<lparr>filename = ''b.csv'', u_uploaded_by = ''staff@example.com'', u_uploaded_at = 2001\<rparr>],
     marks_unique_index = True\<rparr>"

definition db_no_hash :: db where
  "db_no_hash = \<lparr>students_col = [\<lparr>register_number = ''REG2'', student_name = Some ''Bob'',
                                    dob_hash = None, created_at = 1000\<rparr>],
     marks_col = [], uploads_col = [], marks_unique_index = True\<rparr>"

text \<open>A frame with the required columns only, and a row of it for student REG1.\<close>

definition cols_plain :: "string list" where
  "cols_plain = [''register_number'', ''subject_code'', ''marks'']"

definition row_no_name :: "string \<Rightarrow> cell" where
  "row_no_name = mk_row [(''register_number'', text_cell ''REG1''),
                         (''subject_code'', text_cell ''CHEM101''),
                         (''marks'', num_cell ''75'' 75)]"

text \<open>
  Frames and rows for the two batch paths: a frame without \<open>subject_code\<close>; a row
  whose marks are the text \<open>abc\<close>; a row for another student; a frame with a dob
  column and a row whose dob does not parse; two rows for the same pair.
\<close>

definition cols_no_subject :: "string list" where
  "cols_no_subject = [''register_number'', ''marks'']"

definition row_bad_marks :: "string \<Rightarrow> cell" where
  "row_bad_marks = mk_row [(''register_number'', text_cell ''REG1''),
                           (''subject_code'', text_cell ''MATH101''),
                           (''marks'', text_cell ''abc'')]"

definition row_good :: "string \<Rightarrow> cell" where
  "row_good = mk_row [(''register_number'', text_cell ''REG2''),
                      (''subject_code'', text_cell ''MATH101''),
                      (''marks'', num_cell ''90'' 90)]"

definition cols_dob :: "string list" where
  "cols_dob = [''register_number'', ''subject_code'', ''marks'', ''dob'']"

definition row_bad_dob :: "string \<Rightarrow> cell" where
  "row_bad_dob = mk_row [(''register_number'', text_cell ''REG1''),
                         (''subject_code'', text_cell ''MATH101''),
                         (''marks'', num_cell ''88'' 88),
                         (''dob'', text_cell '' not-a-date '')]"

definition row_math_88 :: "string \<Rightarrow> cell" where
  "row_math_88 = mk_row [(''register_number'', text_cell ''REG1''),
                         (''subject_code'', text_cell ''MATH101''),
                         (''marks'', num_cell ''88'' 88)]"

definition row_math_91 :: "string \<Rightarrow> cell" where
  "row_math_91 = mk_row [(''register_number'', text_cell ''REG1''),
                         (''subject_code'', text_cell ''MATH101''),
                         (''marks'', num_cell ''91'' 91)]"

definition row_other_dob :: "string \<Rightarrow> cell" where
  "row_other_dob = mk_row [(''register_number'', text_cell ''REG1''),
                           (''subject_code'', text_cell ''CHEM101''),
                           (''marks'', num_cell ''75'' 75),
                           (''dob'', date_cell ''2006-02-02'')]"

text \<open>The dob \<open>"\\ud800"\<close> of a JSON request: one lone surrogate.\<close>

definition dob_surrogate :: string where
  "dob_surrogate = [CHR 0xED, CHR 0xA0, CHR 0x80]"

definition student_with_hash :: student where
  "student_with_hash = \<lparr>register_number = ''REG1'', student_name = Some ''Alice'',
                         dob_hash = Some ''s$2005-01-01'', created_at = 1000\<rparr>"

section \<open>Collections\<close>

lemma delete_many_filter: "delete_many p ds = filter (\<lambda>d. \<not> p d) ds"
  by (induction ds) auto

lemma delete_one_split:
  "\<exists>d\<in>set ds. p d \<Longrightarrow>
   \<exists>pre u post. ds = pre @ u # post \<and> p u \<and> (\<forall>v\<in>set pre. \<not> p v) \<and> delete_one p ds = pre @ post"
proof (induction ds)
  case Nil
  then show ?case by simp
next
  case (Cons d ds)
  show ?case
  proof (cases "p d")
    case True
    then have "d # ds = [] @ d # ds \<and> p d \<and> (\<forall>v\<in>set []. \<not> p v) \<and> delete_one p (d # ds) = [] @ ds"
      by simp
    then show ?thesis by blast
  next
    case False
    with Cons.prems have "\<exists>d\<in>set ds. p d" by auto
    from Cons.IH[OF this] obtain pre u post where
      h: "ds = pre @ u # post" "p u" "\<forall>v\<in>set pre. \<not> p v" "delete_one p ds = pre @ post"
      by blast
    with False have "d # ds = (d # pre) @ u # post \<and> p u \<and> (\<forall>v\<in>set (d # pre). \<not> p v)
        \<and> delete_one p (d # ds) = (d # pre) @ post"
      by simp
    then show ?thesis by blast
  qed
qed

lemma delete_one_none: "\<forall>d\<in>set ds. \<not> p d \<Longrightarrow> delete_one p ds = ds"
  by (induction ds) auto

lemma find_one_update_one_keep:
  "find_one p ss = Some s \<Longrightarrow> p (f s) \<Longrightarrow> find_one p (update_one p f ss) = Some (f s)"
  by (induction ss) auto

lemma find_one_Some: "find_one p ss = Some s \<Longrightarrow> p s \<and> s \<in> set ss"
  by (induction ss) (auto split: if_splits)

lemma find_one_None: "(find_one p ss = None) = (\<forall>s\<in>set ss. \<not> p s)"
  by (induction ss) auto

lemma find_one_ex: "\<exists>x\<in>set xs. p x \<Longrightarrow> \<exists>x. find_one p xs = Some x"
  by (induction xs) auto

lemma find_one_append:
  "find_one p (xs @ ys) = (case find_one p xs of Some x \<Rightarrow> Some x | None \<Rightarrow> find_one p ys)"
  by (induction xs) auto

lemma find_one_update_one_frame:
  assumes "\<And>x. q (f x) = q x" and "\<And>x. g (f x) = g x"
  shows "map_option g (find_one q (update_one p f ss)) = map_option g (find_one q ss)"
  by (induction ss) (auto simp: assms)

lemma find_one_update_one_other:
  assumes "\<And>x. q (f x) = q x" and "\<And>x. q x \<Longrightarrow> \<not> p x"
  shows "find_one q (update_one p f ss) = find_one q ss"
  using assms by (induction ss) auto

lemma map_update_one:
  assumes "\<And>x. g (f x) = g x"
  shows "map g (update_one p f ss) = map g ss"
  by (induction ss) (auto simp: assms)

section \<open>The upload loop body\<close>

lemma upload_row_Upserted:
  assumes "upload_row e user fname cols i d row = (Upserted, d')"
  shows "\<exists>name h v. student_name_of e cols row = Inr name
           \<and> students_col d' = upsert_student_doc (get_str e cols row ''register_number'')
                  name h (utcnow e i) (students_col d)
           \<and> marks_col d' = upsert_mark (get_str e cols row ''register_number'')
                  (get_str e cols row ''subject_code'') v user (utcnow e i) fname (marks_col d)
           \<and> uploads_col d' = uploads_col d
           \<and> marks_unique_index d' = marks_unique_index d"
  using assms
  by (auto simp: upload_row_def Let_def split: if_splits sum.splits exn.splits)

lemma upload_row_sets_student_name:
  assumes "find_one (\<lambda>s. register_number s = get_str e cols row ''register_number'') (students_col d) = Some s"
    and "upload_row e user fname cols i d row = (Upserted, d')"
  shows "\<exists>name. student_name_of e cols row = Inr name
           \<and> find_one (\<lambda>s. register_number s = get_str e cols row ''register_number'') (students_col d')
               = Some (s\<lparr>student_name := name\<rparr>)"
proof -
  let ?reg = "get_str e cols row ''register_number''"
  have reg: "register_number s = ?reg"
    using find_one_Some[OF assms(1)] by simp
  obtain name h where n: "student_name_of e cols row = Inr name"
    and "students_col d' = upsert_student_doc ?reg name h (utcnow e i) (students_col d)"
    using upload_row_Upserted[OF assms(2)] by blast
  then have "students_col d' = update_one (\<lambda>s. register_number s = ?reg)
       (\<lambda>s. s\<lparr>student_name := name\<rparr>) (students_col d)"
    using assms(1) by (simp add: upsert_student_doc_def)
  then have "find_one (\<lambda>s. register_number s = ?reg) (students_col d') = Some (s\<lparr>student_name := name\<rparr>)"
    using find_one_update_one_keep[OF assms(1), of "\<lambda>s. s\<lparr>student_name := name\<rparr>"] reg
    by simp
  then show ?thesis using n by blast
qed

section \<open>Students under the two batch paths\<close>

text \<open>
  Neither \<open>upload_marks\<close> nor \<open>import_marks_file\<close> replaces a hash that is set:
  the first never writes \<open>dob_hash\<close> of an existing student, the second only fills
  a falsy one.
\<close>

lemma upsert_student_doc_dob_hash:
  assumes "find_one (\<lambda>s. register_number s = r) ss = Some s"
  shows "map_option dob_hash (find_one (\<lambda>s. register_number s = r) (upsert_student_doc reg name h t ss))
           = Some (dob_hash s)"
proof (cases "find_one (\<lambda>s. register_number s = reg) ss")
  case None
  then show ?thesis using assms by (simp add: upsert_student_doc_def find_one_append)
next
  case (Some a)
  have "map_option dob_hash (find_one (\<lambda>s. register_number s = r)
          (update_one (\<lambda>s. register_number s = reg) (\<lambda>s. s\<lparr>student_name := name\<rparr>) ss))
        = map_option dob_hash (find_one (\<lambda>s. register_number s = r) ss)"
    by (rule find_one_update_one_frame) simp_all
  then show ?thesis using Some assms by (simp add: upsert_student_doc_def)
qed

lemma upload_row_students:
  "students_col (snd (upload_row e user fname cols i d row)) = students_col d
   \<or> (\<exists>name h. students_col (snd (upload_row e user fname cols i d row))
        = upsert_student_doc (get_str e cols row ''register_number'') name h
            (utcnow e i) (students_col d))"
  by (auto simp: upload_row_def Let_def split: if_splits sum.splits exn.splits)

lemma upload_row_keeps_dob_hash:
  assumes "find_one (\<lambda>s. register_number s = r) (students_col d) = Some s"
  shows "map_option dob_hash (find_one (\<lambda>s. register_number s = r)
            (students_col (snd (upload_row e user fname cols i d row)))) = Some (dob_hash s)"
  using upload_row_students[of e user fname cols i d row] assms
    upsert_student_doc_dob_hash[OF assms]
  by auto

lemma upload_rows_keeps_dob_hash:
  assumes "find_one (\<lambda>s. register_number s = r) (students_col d) = Some s"
  shows "map_option dob_hash (find_one (\<lambda>s. register_number s = r)
            (students_col (fst (snd (upload_rows e user fname cols i n d rs))))) = Some (dob_hash s)"
  using assms
proof (induction rs arbitrary: i n d s)
  case Nil
  then show ?case by simp
next
  case (Cons row rs)
  obtain out d1 where o: "upload_row e user fname cols i d row = (out, d1)"
    by (cases "upload_row e user fname cols i d row")
  from upload_row_keeps_dob_hash[OF Cons.prems, of e user fname cols i row] o
  obtain s1 where s1: "find_one (\<lambda>s. register_number s = r) (students_col d1) = Some s1"
    "dob_hash s1 = dob_hash s" by auto
  show ?case
    using o s1 Cons.IH[OF s1(1)] by (cases out) auto
qed

lemma upload_marks_keeps_dob_hash:
  assumes "find_one (\<lambda>s. register_number s = r) (students_col d) = Some s"
  shows "map_option dob_hash (find_one (\<lambda>s. register_number s = r)
            (students_col (snd (upload_marks e d user fname read)))) = Some (dob_hash s)"
proof (cases read)
  case None
  then show ?thesis using assms by (simp add: upload_marks_def)
next
  case (Some df)
  obtain x d1 n where u: "upload_rows e user fname (columns df) 0 0 d (rows df) = (x, d1, n)"
    by (cases "upload_rows e user fname (columns df) 0 0 d (rows df)")
  have "map_option dob_hash (find_one (\<lambda>s. register_number s = r) (students_col d1)) = Some (dob_hash s)"
    using upload_rows_keeps_dob_hash[OF assms, of e user fname "columns df" 0 0 "rows df"] u by simp
  then show ?thesis using Some u assms
    by (cases x) (auto simp: upload_marks_def)
qed

lemma import_student_dob_hash:
  assumes "import_student e i reg dob name ss = Inr ss'"
    and "find_one (\<lambda>s. register_number s = r) ss = Some s"
  shows "\<exists>s'. find_one (\<lambda>s. register_number s = r) ss' = Some s'
           \<and> (dob_hash s' = dob_hash s \<or> (\<not> truthy (dob_hash s) \<and> truthy dob \<and> r = reg))"
proof (cases "find_one (\<lambda>s. register_number s = reg) ss")
  case None
  then show ?thesis using assms
    by (auto simp: import_student_def find_one_append split: sum.splits)
next
  case (Some existing)
  show ?thesis
  proof (cases "truthy dob \<and> \<not> truthy (dob_hash existing)")
    case False
    then have "ss' = ss" using assms(1) Some by (auto simp: import_student_def)
    then show ?thesis using assms(2) by simp
  next
    case True
    then obtain h where ss': "ss' = update_one (\<lambda>s. register_number s = reg)
                                    (\<lambda>s. s\<lparr>dob_hash := Some h, student_name := name\<rparr>) ss"
      using assms(1) Some by (auto simp: import_student_def split: sum.splits)
    show ?thesis
    proof (cases "r = reg")
      case True
      with Some assms(2) have "existing = s" by simp
      moreover have "find_one (\<lambda>s. register_number s = r) ss' \<noteq> None"
      proof -
        have "map_option register_number (find_one (\<lambda>s. register_number s = r) ss')
            = map_option register_number (find_one (\<lambda>s. register_number s = r) ss)"
          unfolding ss' by (rule find_one_update_one_frame) simp_all
        then show ?thesis using assms(2) by auto
      qed
      ultimately show ?thesis using \<open>truthy dob \<and> \<not> truthy (dob_hash existing)\<close> True by auto
    next
      case False
      have "find_one (\<lambda>s. register_number s = r) ss' = find_one (\<lambda>s. register_number s = r) ss"
        unfolding ss' by (rule find_one_update_one_other) (use False in auto)
      then show ?thesis using assms(2) by simp
    qed
  qed
qed

lemma import_row_students:
  "students_col (snd (import_row e colmap i d row)) = students_col d
   \<or> (\<exists>reg name. import_student e i reg (optional_date colmap row ''dob'') name (students_col d)
            = Inr (students_col (snd (import_row e colmap i d row))))"
  by (auto simp: import_row_def Let_def insert_one_mark_def split: option.splits if_splits sum.splits)

lemma import_row_dob_hash:
  assumes "find_one (\<lambda>s. register_number s = r) (students_col d) = Some s"
  shows "\<exists>s'. find_one (\<lambda>s. register_number s = r)
                (students_col (snd (import_row e colmap i d row))) = Some s'
            \<and> (dob_hash s' = dob_hash s
                 \<or> (\<not> truthy (dob_hash s) \<and> truthy (optional_date colmap row ''dob'')))"
  using import_row_students[of e colmap i d row] assms import_student_dob_hash[OF _ assms]
  by metis

lemma import_row_keeps_set_dob_hash:
  assumes "find_one (\<lambda>s. register_number s = r) (students_col d) = Some s" and "truthy (dob_hash s)"
  shows "map_option dob_hash (find_one (\<lambda>s. register_number s = r)
            (students_col (snd (import_row e colmap i d row)))) = Some (dob_hash s)"
  using import_row_students[of e colmap i d row] assms import_student_dob_hash[OF _ assms(1)]
  by (metis option.simps(9))

lemma import_rows_keeps_set_dob_hash:
  assumes "find_one (\<lambda>s. register_number s = r) (students_col d) = Some s" and "truthy (dob_hash s)"
  shows "map_option dob_hash (find_one (\<lambda>s. register_number s = r)
            (students_col (fst (import_rows e colmap i (d, n, errs) rs)))) = Some (dob_hash s)"
  using assms
proof (induction rs arbitrary: i n errs d s)
  case Nil
  then show ?case by simp
next
  case (Cons row rs)
  obtain out d1 where o: "import_row e colmap i d row = (out, d1)"
    by (cases "import_row e colmap i d row")
  from import_row_keeps_set_dob_hash[OF Cons.prems, of e colmap i row] o
  obtain s1 where s1: "find_one (\<lambda>s. register_number s = r) (students_col d1) = Some s1"
    "dob_hash s1 = dob_hash s" by auto
  then have t: "truthy (dob_hash s1)" using Cons.prems(2) by simp
  show ?case
    using o s1 Cons.IH[OF s1(1) t] by (cases out) auto
qed

lemma import_marks_file_keeps_set_dob_hash:
  assumes "find_one (\<lambda>s. register_number s = r) (students_col d) = Some s" and "truthy (dob_hash s)"
  shows "map_option dob_hash (find_one (\<lambda>s. register_number s = r)
            (students_col (snd (import_marks_file e d read)))) = Some (dob_hash s)"
proof (cases read)
  case (Frame df)
  obtain d1 n errs where u: "import_rows e (normalize_columns (columns df)) 0 (d, 0, []) (rows df) = (d1, n, errs)"
    by (cases "import_rows e (normalize_columns (columns df)) 0 (d, 0, []) (rows df)")
  have "map_option dob_hash (find_one (\<lambda>s. register_number s = r) (students_col d1)) = Some (dob_hash s)"
    using import_rows_keeps_set_dob_hash[OF assms, of e "normalize_columns (columns df)" 0 0 "[]" "rows df"] u
    by simp
  then show ?thesis using Frame u assms
    by (auto simp: import_marks_file_def Let_def split: option.splits)
qed (use assms in \<open>auto simp: import_marks_file_def\<close>)

section \<open>Marks and upload records under upload\_marks\<close>

text \<open>
  \<open>upload_marks\<close> keeps the pairs of the marks collection distinct, overwrites the
  record of a pair that exists, and appends one upload record exactly when the loop ends
  without an exception.
\<close>

lemma find_one_same_pair_None:
  "find_one (same_pair reg subject) ms = None \<Longrightarrow> (reg, subject) \<notin> set (map pair_of ms)"
  by (induction ms) (auto simp: same_pair_def pair_of_def split: if_splits)

lemma upsert_mark_distinct:
  assumes "distinct (map pair_of ms)"
  shows "distinct (map pair_of (upsert_mark reg subject v user t fname ms))"
proof (cases "find_one (same_pair reg subject) ms")
  case None
  then show ?thesis
    using assms find_one_same_pair_None[OF None]
    by (simp add: upsert_mark_def pair_of_def)
next
  case (Some a)
  have "map pair_of (update_one (same_pair reg subject)
          (\<lambda>m. m\<lparr>marks := v, uploaded_by := user, uploaded_at := t, source_file := Some fname\<rparr>) ms)
        = map pair_of ms"
    by (rule map_update_one) (simp add: pair_of_def)
  then show ?thesis using Some assms by (simp add: upsert_mark_def)
qed

lemma upsert_mark_overwrites:
  "\<exists>m. find_one (same_pair reg subject) (upsert_mark reg subject v user t fname ms) = Some m
       \<and> marks m = v \<and> uploaded_by m = user \<and> uploaded_at m = t \<and> source_file m = Some fname"
proof (cases "find_one (same_pair reg subject) ms")
  case None
  then show ?thesis
    by (simp add: upsert_mark_def find_one_append same_pair_def)
next
  case (Some a)
  have pa: "same_pair reg subject a" using find_one_Some[OF Some] by simp
  have "find_one (same_pair reg subject) (update_one (same_pair reg subject)
          (\<lambda>m. m\<lparr>marks := v, uploaded_by := user, uploaded_at := t, source_file := Some fname\<rparr>) ms)
        = Some (a\<lparr>marks := v, uploaded_by := user, uploaded_at := t, source_file := Some fname\<rparr>)"
    by (rule find_one_update_one_keep[OF Some]) (use pa in \<open>simp add: same_pair_def\<close>)
  then show ?thesis using Some by (simp add: upsert_mark_def)
qed

lemma upsert_mark_length:
  "find_one (same_pair reg subject) ms = Some a
   \<Longrightarrow> length (upsert_mark reg subject v user t fname ms) = length ms"
  by (simp add: upsert_mark_def) (induction ms, auto)

lemma upload_row_marks:
  "marks_col (snd (upload_row e user fname cols i d row)) = marks_col d
   \<or> (\<exists>v. marks_col (snd (upload_row e user fname cols i d row))
        = upsert_mark (get_str e cols row ''register_number'') (get_str e cols row ''subject_code'') v user
            (utcnow e i) fname (marks_col d))"
  by (auto simp: upload_row_def Let_def split: if_splits sum.splits exn.splits)

lemma upload_row_distinct:
  "distinct (map pair_of (marks_col d))
   \<Longrightarrow> distinct (map pair_of (marks_col (snd (upload_row e user fname cols i d row))))"
  using upload_row_marks[of e user fname cols i d row] upsert_mark_distinct by metis

lemma upload_rows_distinct:
  "distinct (map pair_of (marks_col d))
   \<Longrightarrow> distinct (map pair_of (marks_col (fst (snd (upload_rows e user fname cols i n d rs)))))"
proof (induction rs arbitrary: i n d)
  case Nil
  then show ?case by simp
next
  case (Cons row rs)
  obtain out d1 where o: "upload_row e user fname cols i d row = (out, d1)"
    by (cases "upload_row e user fname cols i d row")
  have d1: "distinct (map pair_of (marks_col d1))"
    using upload_row_distinct[OF Cons.prems, of e user fname cols i row] o by simp
  show ?case using o d1 Cons.IH[OF d1] by (cases out) auto
qed

lemma upload_marks_distinct:
  assumes "distinct (map pair_of (marks_col d))"
  shows "distinct (map pair_of (marks_col (snd (upload_marks e d user fname read))))"
proof (cases read)
  case None
  then show ?thesis using assms by (simp add: upload_marks_def)
next
  case (Some df)
  obtain x d1 n where u: "upload_rows e user fname (columns df) 0 0 d (rows df) = (x, d1, n)"
    by (cases "upload_rows e user fname (columns df) 0 0 d (rows df)")
  have "distinct (map pair_of (marks_col d1))"
    using upload_rows_distinct[OF assms, of e user fname "columns df" 0 0 "rows df"] u by simp
  then show ?thesis using Some u assms by (cases x) (auto simp: upload_marks_def)
qed

lemma upload_row_uploads:
  "uploads_col (snd (upload_row e user fname cols i d row)) = uploads_col d"
  by (auto simp: upload_row_def Let_def split: if_splits sum.splits exn.splits)

lemma upload_rows_uploads:
  "uploads_col (fst (snd (upload_rows e user fname cols i n d rs))) = uploads_col d"
proof (induction rs arbitrary: i n d)
  case Nil
  then show ?case by simp
next
  case (Cons row rs)
  obtain out d1 where o: "upload_row e user fname cols i d row = (out, d1)"
    by (cases "upload_row e user fname cols i d row")
  have "uploads_col d1 = uploads_col d"
    using upload_row_uploads[of e user fname cols i d row] o by simp
  then show ?case using o Cons.IH[of _ _ d1] by (cases out) auto
qed

lemma upload_marks_uploads:
  "uploads_col (snd (upload_marks e d user fname (Some df)))
   = (case fst (upload_marks e d user fname (Some df)) of
        Processed n \<Rightarrow> uploads_col d @ [\<lparr>filename = fname, u_uploaded_by = user,
                                         u_uploaded_at = utcnow e (length (rows df))\<rparr>]
      | _ \<Rightarrow> uploads_col d)"
proof -
  obtain x d1 n where u: "upload_rows e user fname (columns df) 0 0 d (rows df) = (x, d1, n)"
    by (cases "upload_rows e user fname (columns df) 0 0 d (rows df)")
  have "uploads_col d1 = uploads_col d"
    using upload_rows_uploads[of e user fname "columns df" 0 0 d "rows df"] u by simp
  then show ?thesis using u by (cases x) (auto simp: upload_marks_def)
qed

section \<open>The import loop\<close>

lemma dom_fold_update:
  "dom (fold (\<lambda>c m. m(f c \<mapsto> c)) cols m0) = f ` set cols \<union> dom m0"
  by (induction cols arbitrary: m0) auto

lemma normalize_columns_None:
  "(normalize_columns cols r = None) = (r \<notin> set (renamed cols))"
proof -
  have "dom (normalize_columns cols) = set (renamed cols)"
    by (simp add: normalize_columns_def renamed_def dom_fold_update)
  then show ?thesis by (metis domIff)
qed

lemma import_rows_counts:
  "import_rows e colmap idx (d, inserted, errors) rs = (d', inserted', errors')
   \<Longrightarrow> inserted' + length errors' = inserted + length errors + length rs"
proof (induction rs arbitrary: idx d inserted errors)
  case Nil
  then show ?case by simp
next
  case (Cons r rs)
  obtain out d1 where o: "import_row e colmap idx d r = (out, d1)" by (cases "import_row e colmap idx d r")
  show ?case
  proof (cases out)
    case Missing_required
    with o Cons.prems Cons.IH[of "Suc idx" d1 inserted "errors @ [Row_error (idx + 2) ''missing required'']"]
    show ?thesis by simp
  next
    case Inserted
    with o Cons.prems Cons.IH[of "Suc idx" d1 "Suc inserted" errors]
    show ?thesis by simp
  next
    case (Failed y)
    with o Cons.prems Cons.IH[of "Suc idx" d1 inserted "errors @ [Row_error (idx + 2) (message y)]"]
    show ?thesis by simp
  qed
qed

lemma import_marks_file_keeps_unparsed_dob:
  "import_marks_file env0 db_empty (Frame \<lparr>columns = cols_dob, rows = [row_bad_dob]\<rparr>)
   = (Imported 1 [],
      db_empty\<lparr>students_col := [\<lparr>register_number = ''REG1'', student_name = None,
                                   dob_hash = Some ''s$not-a-date'', created_at = 1000\<rparr>],
               marks_col := [\<lparr>m_register_number = ''REG1'', subject_code = ''MATH101'',
                               subject_name = None, marks = 88, exam_date = None,
                               uploaded_by = ''migration-script'', uploaded_at = 1000,
                               source_file = None\<rparr>]\<rparr>)"
  by code_simp

lemma import_marks_file_unique_index_no_overwrite:
  "fst (import_marks_file env0 (db_empty\<lparr>marks_unique_index := True\<rparr>)
                          (Frame \<lparr>columns = cols_plain, rows = [row_math_88, row_math_91]\<rparr>))
     = Imported 1 [Row_error 3 ''E11000 duplicate key error'']
  \<and> map (\<lambda>m. (pair_of m, marks m))
       (marks_col (snd (import_marks_file env0 (db_empty\<lparr>marks_unique_index := True\<rparr>)
                          (Frame \<lparr>columns = cols_plain, rows = [row_math_88, row_math_91]\<rparr>))))
     = [((''REG1'', ''MATH101''), 88)]"
  by code_simp

lemma upload_marks_overwrites_pair:
  "map (\<lambda>m. (pair_of m, marks m, source_file m))
       (marks_col (snd (upload_marks env0 db_empty ''staff@example.com'' ''m.csv''
                          (Some \<lparr>columns = cols_plain, rows = [row_math_88, row_math_91]\<rparr>))))
     = [((''REG1'', ''MATH101''), 91, Some ''m.csv'')]"
  by code_simp

lemma import_rows_records_and_continues:
  assumes "import_rows e colmap idx st pre = (d, inserted, errors)"
    and "import_row e colmap (idx + length pre) d row = (Failed x, d')"
  shows "import_rows e colmap idx st (pre @ row # post)
       = import_rows e colmap (Suc (idx + length pre))
           (d', inserted, errors @ [Row_error (idx + length pre + 2) (message x)]) post"
  using assms
proof (induction pre arbitrary: idx st)
  case Nil
  then show ?case by simp
next
  case (Cons r pre)
  obtain d0 n0 e0 where st: "st = (d0, n0, e0)" by (cases st)
  show ?case
  proof (cases "import_row e colmap idx d0 r")
    case (Pair out d1)
    show ?thesis
    proof (cases out)
      case Missing_required
      with Pair st Cons.prems Cons.IH[of "Suc idx" "(d1, n0, e0 @ [Row_error (idx + 2) ''missing required''])"]
      show ?thesis by simp
    next
      case Inserted
      with Pair st Cons.prems Cons.IH[of "Suc idx" "(d1, Suc n0, e0)"]
      show ?thesis by simp
    next
      case (Failed y)
      with Pair st Cons.prems Cons.IH[of "Suc idx" "(d1, n0, e0 @ [Row_error (idx + 2) (message y)])"]
      show ?thesis by simp
    qed
  qed
qed

lemma import_marks_file_records_and_continues:
  "import_marks_file env0 db_empty (Frame \<lparr>columns = cols_plain, rows = [row_bad_marks, row_good]\<rparr>)
   = (Imported 1 [Row_error 2 ''could not convert string to float''],
      db_empty\<lparr>students_col := [\<lparr>register_number = ''REG1'', student_name = None,
                                   dob_hash = None, created_at = 1000\<rparr>,
                                 \<lparr>register_number = ''REG2'', student_name = None,
                                   dob_hash = None, created_at = 1001\<rparr>],
               marks_col := [\<lparr>m_register_number = ''REG2'', subject_code = ''MATH101'',
                               subject_name = None, marks = 90, exam_date = None,
                               uploaded_by = ''migration-script'', uploaded_at = 1001,
                               source_file = None\<rparr>]\<rparr>)"
  by code_simp

lemma import_marks_file_keeps_student_name:
  "fst (import_marks_file env0 db_two_files (Frame \<lparr>columns = cols_plain, rows = [row_no_name]\<rparr>))
     = Imported 1 []
   \<and> map student_name (students_col (snd (import_marks_file env0 db_two_files
        (Frame \<lparr>columns = cols_plain, rows = [row_no_name]\<rparr>)))) = [Some ''Alice'']"
  by code_simp

section \<open>Lookup\<close>

lemma lookup_same_answer_when_check_fails:
  assumes "strip reg_in \<noteq> []" and "strip dob_in \<noteq> []"
    and "find_one (\<lambda>s. register_number s = strip reg_in) (students_col d1) = None"
    and "find_one (\<lambda>s. register_number s = strip reg_in) (students_col d2) = Some s"
    and "verify_hash e (strip dob_in) (dob_hash s) = Inr False"
  shows "lookup e d1 reg_in dob_in = lookup e d2 reg_in dob_in
       \<and> lookup e d2 reg_in dob_in = Json_error 401 ''Invalid details''"
  using assms by (simp add: lookup_def)

section \<open>The student helper of models.py\<close>

text \<open>
  No handler calls \<open>upsert_student\<close>. Called for a student who exists, with a dob, it
  replaces the stored hash.
\<close>

lemma upsert_student_replaces_dob_hash:
  "upsert_student env0 1 [student_with_hash] ''REG1'' (Some ''2006-02-02'')
     = Inr [student_with_hash\<lparr>dob_hash := Some ''ss$2006-02-02''\<rparr>]"
  by code_simp

section \<open>Claims\<close>

text \<open>
  C5. Admin delete, for a request whose secured file name \<open>name\<close> is not empty:
  the marks that remain are exactly those whose \<open>source_file\<close> is not \<open>name\<close>, in
  their order; the students are as before; of the upload records the first one named
  \<open>name\<close> is removed and every other one stays (none is removed when none matches).
\<close>

theorem delete_upload_cascade:
  assumes "secure_filename e filename_in = name" and "name \<noteq> []"
  shows "fst (delete_upload e d filename_in) = Deleted
     \<and> marks_col (snd (delete_upload e d filename_in))
         = filter (\<lambda>m. source_file m \<noteq> Some name) (marks_col d)
     \<and> students_col (snd (delete_upload e d filename_in)) = students_col d
     \<and> ((\<exists>u\<in>set (uploads_col d). filename u = name) \<longrightarrow>
          (\<exists>pre u post. uploads_col d = pre @ u # post \<and> filename u = name
             \<and> (\<forall>v\<in>set pre. filename v \<noteq> name)
             \<and> uploads_col (snd (delete_upload e d filename_in)) = pre @ post))
     \<and> ((\<forall>u\<in>set (uploads_col d). filename u \<noteq> name) \<longrightarrow>
          uploads_col (snd (delete_upload e d filename_in)) = uploads_col d)"
proof -
  have eq: "delete_upload e d filename_in = (Deleted,
            d\<lparr>uploads_col := delete_one (\<lambda>u. filename u = name) (uploads_col d),
              marks_col := delete_many (\<lambda>m. source_file m = Some name) (marks_col d)\<rparr>)"
    using assms by (simp add: delete_upload_def)
  have a: "(\<exists>u\<in>set (uploads_col d). filename u = name) \<longrightarrow>
          (\<exists>pre u post. uploads_col d = pre @ u # post \<and> filename u = name
             \<and> (\<forall>v\<in>set pre. filename v \<noteq> name)
             \<and> delete_one (\<lambda>u. filename u = name) (uploads_col d) = pre @ post)"
    using delete_one_split[of "uploads_col d" "\<lambda>u. filename u = name"] by blast
  have b: "(\<forall>u\<in>set (uploads_col d). filename u \<noteq> name) \<longrightarrow>
          delete_one (\<lambda>u. filename u = name) (uploads_col d) = uploads_col d"
    using delete_one_none[of "uploads_col d" "\<lambda>u. filename u = name"] by blast
  show ?thesis using a b by (simp add: eq delete_many_filter)
qed

theorem delete_upload_cascade_witness:
  "secure_filename env0 ''a.csv'' = ''a.csv'' \<and> ''a.csv'' \<noteq> []
   \<and> map subject_code (marks_col (snd (delete_upload env0 db_two_files ''a.csv''))) = [''PHYS101'']
   \<and> students_col (snd (delete_upload env0 db_two_files ''a.csv'')) = students_col db_two_files
   \<and> map filename (uploads_col (snd (delete_upload env0 db_two_files ''a.csv''))) = [''b.csv'']"
proof -
  have h1: "secure_filename env0 ''a.csv'' = ''a.csv''" by (simp add: env0_def)
  have h2: "''a.csv'' \<noteq> []" by simp
  note t = delete_upload_cascade[OF h1 h2, of db_two_files]
  have m: "map subject_code (filter (\<lambda>m. source_file m \<noteq> Some ''a.csv'') (marks_col db_two_files)) = [''PHYS101'']"
    by (simp add: db_two_files_def)
  have u: "map filename (uploads_col (snd (delete_upload env0 db_two_files ''a.csv''))) = [''b.csv'']"
    by (simp add: delete_upload_def env0_def db_two_files_def)
  show ?thesis using t h1 m u by simp
qed

text \<open>
  C9 on \<open>lookup\<close>: a request whose dob is a lone surrogate, not empty after
  \<open>strip\<close>. For a register number that no student has the answer is 401; for the
  existing student REG1 \<open>text.encode()\<close> raises inside \<open>verify_hash\<close>, outside any
  \<open>try\<close>, and the exception leaves the handler. A wrong dob that can be encoded gets
  the same 401 as the missing student (\<open>lookup_same_answer_when_check_fails\<close>).
\<close>

theorem lookup_reveals_existing_student:
  "strip dob_surrogate \<noteq> []
   \<and> lookup env0 db_two_files ''REG9'' dob_surrogate = Json_error 401 ''Invalid details''
   \<and> lookup env0 db_two_files ''REG1'' dob_surrogate
       = Unhandled (UnicodeEncodeError ''surrogates not allowed'')
   \<and> lookup env0 db_two_files ''REG1'' ''1999-09-09'' = Json_error 401 ''Invalid details''"
  by code_simp

text \<open>
  C10. A student whose stored \<open>dob_hash\<close> is null, missing or empty: every lookup for
  that register number with a dob supplied is answered 401, and both \<open>verify_hash\<close>
  helpers return False on that hash, for every text, without calling bcrypt.
\<close>

theorem lookup_without_hash:
  assumes "find_one (\<lambda>s. register_number s = strip reg_in) (students_col d) = Some s"
    and "dob_hash s = None \<or> dob_hash s = Some []"
    and "strip reg_in \<noteq> []" and "strip dob_in \<noteq> []"
  shows "lookup e d reg_in dob_in = Json_error 401 ''Invalid details''
       \<and> verify_hash e text (dob_hash s) = Inr False
       \<and> models_verify_hash e text (dob_hash s) = Inr False"
  using assms by (auto simp add: lookup_def verify_hash_def models_verify_hash_def)

theorem lookup_without_hash_witness:
  "lookup env0 db_no_hash ''REG2'' ''2005-01-01'' = Json_error 401 ''Invalid details''
   \<and> verify_hash env0 ''2005-01-01'' None = Inr False
   \<and> models_verify_hash env0 ''2005-01-01'' None = Inr False"
proof -
  have h1: "find_one (\<lambda>s. register_number s = strip ''REG2'') (students_col db_no_hash)
      = Some \<lparr>register_number = ''REG2'', student_name = Some ''Bob'',
               dob_hash = None, created_at = 1000\<rparr>"
    by code_simp
  have h2: "dob_hash \<lparr>register_number = ''REG2'', student_name = Some ''Bob'',
               dob_hash = None, created_at = 1000\<rparr> = None
        \<or> dob_hash \<lparr>register_number = ''REG2'', student_name = Some ''Bob'',
               dob_hash = None, created_at = 1000\<rparr> = Some []" by simp
  have h3: "strip ''REG2'' \<noteq> []" by code_simp
  have h4: "strip ''2005-01-01'' \<noteq> []" by code_simp
  show ?thesis using lookup_without_hash[OF h1 h2 h3 h4, of env0 "''2005-01-01''"] by simp
qed

text \<open>
  C6 on \<open>upload_marks\<close>: a sheet without a \<open>student_name\<close> column, with one row
  for the existing student REG1 named Alice. The row is stored and the stored name is
  null afterwards: \<open>student_name\<close> stands in \<open>$set\<close> whatever its value
  (\<open>upload_row_sets_student_name\<close>). \<open>import_marks_file\<close> keeps the name on the
  same store and sheet (\<open>import_marks_file_keeps_student_name\<close>).
\<close>

theorem upload_marks_clears_student_name:
  "map student_name (students_col db_two_files) = [Some ''Alice'']
   \<and> fst (upload_marks env0 db_two_files ''staff@example.com'' ''c.csv''
            (Some \<lparr>columns = cols_plain, rows = [row_no_name]\<rparr>)) = Processed 1
   \<and> map student_name (students_col (snd (upload_marks env0 db_two_files ''staff@example.com'' ''c.csv''
            (Some \<lparr>columns = cols_plain, rows = [row_no_name]\<rparr>)))) = [None]"
  by code_simp

text \<open>
  C1. A student who exists when a row is processed, on both batch paths.
  \<open>upload_marks\<close> never changes the stored \<open>dob_hash\<close>, by any row and by any
  batch. A row of \<open>import_marks_file\<close> changes it only when the stored hash was
  null, missing or empty and the row supplies a dob; a hash that is set is the same
  after the whole import.
\<close>

theorem batch_rows_keep_dob_hash:
  assumes "find_one (\<lambda>s. register_number s = r) (students_col d) = Some s"
  shows "map_option dob_hash (find_one (\<lambda>s. register_number s = r)
            (students_col (snd (upload_row e user fname cols i d row)))) = Some (dob_hash s)
       \<and> map_option dob_hash (find_one (\<lambda>s. register_number s = r)
            (students_col (snd (upload_marks e d user fname read)))) = Some (dob_hash s)
       \<and> (\<exists>s'. find_one (\<lambda>s. register_number s = r)
                  (students_col (snd (import_row e colmap i d row))) = Some s'
              \<and> (dob_hash s' = dob_hash s
                   \<or> (\<not> truthy (dob_hash s) \<and> truthy (optional_date colmap row ''dob''))))
       \<and> (truthy (dob_hash s) \<longrightarrow>
            map_option dob_hash (find_one (\<lambda>s. register_number s = r)
              (students_col (snd (import_marks_file e d file)))) = Some (dob_hash s))"
  using upload_row_keeps_dob_hash[OF assms] upload_marks_keeps_dob_hash[OF assms]
    import_row_dob_hash[OF assms] import_marks_file_keeps_set_dob_hash[OF assms]
  by blast

theorem batch_rows_keep_dob_hash_witness:
  "fst (upload_marks env0 db_two_files ''staff@example.com'' ''c.csv''
          (Some \<lparr>columns = cols_dob, rows = [row_other_dob]\<rparr>)) = Processed 1
   \<and> map_option dob_hash (find_one (\<lambda>s. register_number s = ''REG1'')
        (students_col (snd (upload_marks env0 db_two_files ''staff@example.com'' ''c.csv''
          (Some \<lparr>columns = cols_dob, rows = [row_other_dob]\<rparr>))))) = Some (Some ''s$2005-01-01'')
   \<and> fst (import_marks_file env0 db_two_files (Frame \<lparr>columns = cols_dob, rows = [row_other_dob]\<rparr>))
       = Imported 1 []
   \<and> map_option dob_hash (find_one (\<lambda>s. register_number s = ''REG1'')
        (students_col (snd (import_marks_file env0 db_two_files
          (Frame \<lparr>columns = cols_dob, rows = [row_other_dob]\<rparr>))))) = Some (Some ''s$2005-01-01'')"
proof -
  have h: "find_one (\<lambda>s. register_number s = ''REG1'') (students_col db_two_files)
      = Some student_with_hash"
    by code_simp
  have t: "truthy (dob_hash student_with_hash)" by code_simp
  have v: "dob_hash student_with_hash = Some ''s$2005-01-01''" by code_simp
  have u: "fst (upload_marks env0 db_two_files ''staff@example.com'' ''c.csv''
          (Some \<lparr>columns = cols_dob, rows = [row_other_dob]\<rparr>)) = Processed 1"
    by code_simp
  have m: "fst (import_marks_file env0 db_two_files (Frame \<lparr>columns = cols_dob, rows = [row_other_dob]\<rparr>))
       = Imported 1 []"
    by code_simp
  show ?thesis
    using batch_rows_keep_dob_hash[OF h, of env0 "''staff@example.com''" "''c.csv''" cols_dob 0
        row_other_dob "Some \<lparr>columns = cols_dob, rows = [row_other_dob]\<rparr>" "normalize_columns cols_dob"
        "Frame \<lparr>columns = cols_dob, rows = [row_other_dob]\<rparr>"] t v u m
    by simp
qed

text \<open>
  C2 on \<open>import_marks_file\<close>: on a fresh store set up by \<open>create_indexes\<close>, a
  file with two rows for the pair (REG1, MATH101) leaves two mark records for that pair,
  neither with a \<open>source_file\<close>; the unique index of app.py can then no longer be
  built. (\<open>upload_marks\<close> keeps the pairs distinct: \<open>upload_marks_distinct\<close>.)
\<close>

theorem import_marks_file_duplicates_pair:
  "map (\<lambda>m. (pair_of m, marks m))
       (marks_col (snd (import_marks_file env0 (create_indexes db_empty)
                          (Frame \<lparr>columns = cols_plain, rows = [row_math_88, row_math_91]\<rparr>))))
     = [((''REG1'', ''MATH101''), 88), ((''REG1'', ''MATH101''), 91)]
   \<and> app_create_index (snd (import_marks_file env0 (create_indexes db_empty)
                          (Frame \<lparr>columns = cols_plain, rows = [row_math_88, row_math_91]\<rparr>)))
     = Inl (DuplicateKeyError ''E11000 duplicate key error'')"
  by code_simp

text \<open>
  C3 on \<open>upload_marks\<close>: a readable file with the required columns whose first row
  has the text \<open>abc\<close> as marks. \<open>float\<close> raises inside a \<open>try\<close> that catches
  \<open>DuplicateKeyError\<close> only; nothing records the failure, the exception leaves the
  handler, and the second row is never processed. \<open>import_marks_file\<close> records the
  row and goes on (\<open>import_rows_records_and_continues\<close>,
  \<open>import_marks_file_records_and_continues\<close>).
\<close>

theorem upload_marks_aborts_batch:
  "upload_marks env0 db_empty ''staff@example.com'' ''m.csv''
      (Some \<lparr>columns = cols_plain, rows = [row_bad_marks, row_good]\<rparr>)
   = (Unhandled (ValueError ''could not convert string to float''),
      db_empty\<lparr>students_col := [\<lparr>register_number = ''REG1'', student_name = None,
                                   dob_hash = None, created_at = 1000\<rparr>]\<rparr>)"
  by code_simp

text \<open>
  C4, as the code has it. A file that lacks a required column (after the labels are
  lowercased and stripped) causes no write on either path. \<open>upload_marks\<close> answers
  400 "Missing required columns". \<open>import_marks_file\<close> returns the missing-column
  error naming the first missing column when the frame has a row and a column, and the
  "empty file" result otherwise.
\<close>

theorem missing_column_no_writes:
  assumes "\<not> set required \<subseteq> set (renamed (columns df))"
  shows "upload_marks e d user fname (Some df) = (Json_error 400 ''Missing required columns'', d)
       \<and> snd (import_marks_file e d (Frame df)) = d
       \<and> (rows df \<noteq> [] \<and> columns df \<noteq> [] \<longrightarrow>
            (\<exists>r. find_one (\<lambda>r. r \<notin> set (renamed (columns df))) required = Some r
               \<and> fst (import_marks_file e d (Frame df)) = Import_error ''missing-column'' (Some r)))
       \<and> (rows df = [] \<or> columns df = [] \<longrightarrow>
            fst (import_marks_file e d (Frame df)) = Imported 0 [Text_error ''empty file''])"
proof -
  have up: "upload_marks e d user fname (Some df) = (Json_error 400 ''Missing required columns'', d)"
    using assms by (simp add: upload_marks_def)
  have "\<exists>r\<in>set required. r \<notin> set (renamed (columns df))"
    using assms by blast
  then obtain r where r: "find_one (\<lambda>r. r \<notin> set (renamed (columns df))) required = Some r"
    using find_one_ex[of required "\<lambda>r. r \<notin> set (renamed (columns df))"] by blast
  have pred: "(\<lambda>r. normalize_columns (columns df) r = None) = (\<lambda>r. r \<notin> set (renamed (columns df)))"
    by (simp add: normalize_columns_None)
  show ?thesis
    using up r by (simp add: import_marks_file_def pred)
qed

theorem missing_column_no_writes_witness:
  "upload_marks env0 db_two_files ''staff@example.com'' ''m.csv''
      (Some \<lparr>columns = cols_no_subject, rows = [row_good]\<rparr>)
     = (Json_error 400 ''Missing required columns'', db_two_files)
   \<and> import_marks_file env0 db_two_files (Frame \<lparr>columns = cols_no_subject, rows = [row_good]\<rparr>)
     = (Import_error ''missing-column'' (Some ''subject_code''), db_two_files)"
proof -
  have h: "\<not> set required \<subseteq> set (renamed (columns \<lparr>columns = cols_no_subject, rows = [row_good]\<rparr>))"
    by code_simp
  have f: "find_one (\<lambda>r. r \<notin> set (renamed cols_no_subject)) required = Some ''subject_code''"
    by code_simp
  have c: "cols_no_subject \<noteq> []" by (simp add: cols_no_subject_def)
  show ?thesis
    using missing_column_no_writes[OF h, of env0 db_two_files "''staff@example.com''" "''m.csv''"] f c
    by (auto simp: prod_eq_iff)
qed

text \<open>
  C4 as stated fails on \<open>import_marks_file\<close> for a file without data rows: the
  \<open>df.empty\<close> return comes before the column check.
\<close>

theorem empty_file_counterexample:
  "\<not> set required \<subseteq> set (renamed (columns \<lparr>columns = cols_no_subject, rows = []\<rparr>))
   \<and> import_marks_file env0 db_empty (Frame \<lparr>columns = cols_no_subject, rows = []\<rparr>)
       = (Imported 0 [Text_error ''empty file''], db_empty)"
  by code_simp

text \<open>
  C7 on \<open>upload_marks\<close>: a row whose dob is present and does not parse is not carried
  through. \<open>pd.to_datetime\<close> is called outside any \<open>try\<close>, the exception leaves
  the handler and nothing of the batch is stored. (\<open>import_marks_file\<close> hashes the
  trimmed text: \<open>import_marks_file_keeps_unparsed_dob\<close>.)
\<close>

theorem upload_marks_rejects_unparsed_dob:
  "upload_marks env0 db_empty ''staff@example.com'' ''m.csv''
      (Some \<lparr>columns = cols_dob, rows = [row_bad_dob, row_good]\<rparr>)
   = (Unhandled (ValueError ''Unknown datetime string format''), db_empty)"
  by code_simp

text \<open>
  C8 on \<open>upload_marks\<close>: a readable file with the required columns, one good row and
  one row whose marks are the text \<open>abc\<close>. The good row is stored, the exception of
  the second leaves the handler, and no upload record is written.
  (\<open>upload_marks_uploads\<close>: a record is appended exactly when the answer is
  \<open>Processed\<close>.)
\<close>

theorem upload_marks_no_upload_record:
  "fst (upload_marks env0 db_empty ''staff@example.com'' ''m.csv''
      (Some \<lparr>columns = cols_plain, rows = [row_good, row_bad_marks]\<rparr>))
     = Unhandled (ValueError ''could not convert string to float'')
   \<and> uploads_col (snd (upload_marks env0 db_empty ''staff@example.com'' ''m.csv''
      (Some \<lparr>columns = cols_plain, rows = [row_good, row_bad_marks]\<rparr>))) = []
   \<and> map pair_of (marks_col (snd (upload_marks env0 db_empty ''staff@example.com'' ''m.csv''
      (Some \<lparr>columns = cols_plain, rows = [row_good, row_bad_marks]\<rparr>)))) = [(''REG2'', ''MATH101'')]"
  by code_simp

end
